theory Spec2Isabelle
  imports Main
begin

section \<open>init.ts: the process-wide client registry\<close>

text \<open>
  The store client (\<^verbatim>\<open>SupabaseClient\<close> of \<^verbatim>\<open>@supabase/supabase-js\<close>) is an external
  library. The hook uses three of its capabilities: point reads and point updates, whose
  completions arrive later as events, and realtime channels.
\<close>

text \<open>
  Modelled from the spec: the client's channel registry, which is the library's and not
  the repository's. A channel is an object with an identity and a topic;
  \<^verbatim>\<open>channel(key)\<close> registers a new channel, \<^verbatim>\<open>removeChannel(ch)\<close> releases it,
  \<^verbatim>\<open>getChannels()\<close> enumerates the live ones, and a released channel delivers no further
  change events (spec sections 4.2 and 6).
\<close>

datatype error = Error string

record realtimeChannel =
  chanId :: nat
  topic :: string
  joinedOnce :: bool

record supabaseClient =
  channels :: "realtimeChannel list"

definition getChannels :: "supabaseClient \<Rightarrow> realtimeChannel list" where
  "getChannels c = channels c"

definition freshChanId :: "supabaseClient \<Rightarrow> nat" where
  "freshChanId c = Suc (fold max (map chanId (channels c)) 0)"

definition channel :: "string \<Rightarrow> supabaseClient \<Rightarrow> realtimeChannel \<times> supabaseClient" where
  "channel key c =
     (let ch = \<lparr>chanId = freshChanId c, topic = key, joinedOnce = False\<rparr>
      in (ch, c\<lparr>channels := channels c @ [ch]\<rparr>))"

text \<open>
  Modelled from the spec: the subscribe primitive of a channel, which is the library's
  (spec sections 6 and 9). A channel instance is subscribed once; the library refuses a
  second \<^verbatim>\<open>subscribe()\<close> on the same instance by throwing. \<open>putChannel\<close> stores the
  changed channel object back under its identity.
\<close>

definition subscribedTwice :: string where
  "subscribedTwice =
     ''tried to subscribe multiple times. subscribe can only be called a single time per channel instance''"

definition subscribe :: "realtimeChannel \<Rightarrow> error + realtimeChannel" where
  "subscribe ch =
     (if joinedOnce ch then Inl (Error subscribedTwice) else Inr (ch\<lparr>joinedOnce := True\<rparr>))"

definition putChannel :: "realtimeChannel \<Rightarrow> supabaseClient \<Rightarrow> supabaseClient" where
  "putChannel ch c =
     c\<lparr>channels := map (\<lambda>x. if chanId x = chanId ch then ch else x) (channels c)\<rparr>"

definition removeChannel :: "realtimeChannel \<Rightarrow> supabaseClient \<Rightarrow> supabaseClient" where
  "removeChannel ch c = c\<lparr>channels := filter (\<lambda>x. chanId x \<noteq> chanId ch) (channels c)\<rparr>"

definition isLive :: "realtimeChannel \<Rightarrow> supabaseClient \<Rightarrow> bool" where
  "isLive ch c = (chanId ch \<in> set (map chanId (channels c)))"

text \<open>
  \<^verbatim>\<open>let supabaseClient: SupabaseClient | null = null\<close>: the registry is a module-level
  variable, \<open>None\<close> until \<^verbatim>\<open>initSupabaseState\<close> stores a client. \<^verbatim>\<open>getSupabaseClient\<close>
  throws an \<^verbatim>\<open>Error\<close> carrying a fixed message when the variable is still null.
\<close>

type_synonym registry = "supabaseClient option"

definition registry0 :: registry where
  "registry0 = None"

definition initSupabaseState :: "supabaseClient \<Rightarrow> registry \<Rightarrow> registry" where
  "initSupabaseState client reg = Some client"

definition notInitialized :: string where
  "notInitialized = ''Supabase client not initialized. Call initSupabaseState(client) first.''"

definition getSupabaseClient :: "registry \<Rightarrow> error + supabaseClient" where
  "getSupabaseClient reg =
     (case reg of None \<Rightarrow> Inl (Error notInitialized) | Some c \<Rightarrow> Inr c)"

section \<open>useRowState.ts: data\<close>

text \<open>
  \<^verbatim>\<open>type RowState<T> = T | null\<close> is \<open>'r option\<close>, with \<open>None\<close> for null. The options
  object has optional fields; the hook destructures it with defaults. The logger is a sink
  for messages: the model records every message passed to it, in order.
\<close>

record useSupabaseRowStateOptions =
  opt_schema :: "string option"
  opt_primaryKey :: "string option"
  opt_autoSync :: "bool option"
  opt_select :: "string option"
  opt_skip :: "bool option"

definition noOptions :: useSupabaseRowStateOptions where
  "noOptions = \<lparr>opt_schema = None, opt_primaryKey = None, opt_autoSync = None,
                 opt_select = None, opt_skip = None\<rparr>"

definition orDefault :: "'a \<Rightarrow> 'a option \<Rightarrow> 'a" where
  "orDefault d x = (case x of None \<Rightarrow> d | Some v \<Rightarrow> v)"

text \<open>
  \<^verbatim>\<open>type RowUpdater<T> = ((prev: T | null) => T) | T\<close>. The declared result type is
  \<^verbatim>\<open>T\<close>, but \<^verbatim>\<open>setRow\<close> tests the computed value for truthiness before persisting, so the
  model lets the computed value be null as well.
\<close>

datatype 'r rowUpdater = Literal "'r option" | Updater "'r option \<Rightarrow> 'r option"

datatype postgresChangesEvent = ALL | INSERT | UPDATE | DELETE

record 'r payload =
  eventType :: postgresChangesEvent
  new :: 'r

text \<open>The result of the awaited point read: \<^verbatim>\<open>{ data: row, error }\<close>, the error by its message.\<close>

record 'r readResult =
  res_data :: "'r option"
  res_error :: "string option"

text \<open>
  Modelled from the spec: the shape of the result of the library's \<^verbatim>\<open>.single()\<close> read,
  which expects exactly one row. The result carries either a row and no error, or an error
  and no row; a read that finds no row is a failed read (spec sections 4.1 and 7).
\<close>

definition singleResult :: "'r readResult \<Rightarrow> bool" where
  "singleResult res = ((res_data res = None) = (res_error res \<noteq> None))"

text \<open>The requests the hook issues to the store: one point read and the point updates.\<close>

record readRequest =
  rd_table :: string
  rd_select :: string
  rd_column :: string
  rd_value :: string

record 'r updateRequest =
  up_table :: string
  up_values :: 'r
  up_column :: string
  up_value :: string

text \<open>
  The values the closures of one hook instance capture: the arguments and the destructured
  options. The row id is the primitive key as the template strings render it.
\<close>

record bindings =
  table :: string
  rowId :: string
  schema :: string
  primaryKey :: string
  autoSync :: bool
  select :: string

text \<open>
  The state of one hook instance together with what it shares with its surroundings:
  the module-level client, the two React state cells \<^verbatim>\<open>data\<close> and \<^verbatim>\<open>isLoaded\<close>, the ref
  \<^verbatim>\<open>channelRef\<close>, the \<^verbatim>\<open>isMounted\<close> variable of the fetch effect, the messages given to the
  logger, and the reads and updates issued to the store. A state setter called with a value
  is a write to its cell. A state setter called with a function leaves it to React to run
  the function: React runs it once and may run it again (under \<^verbatim>\<open>StrictMode\<close>, or when a
  render is restarted), each time on the same previous value; \<open>reruns\<close> is the number of
  such further runs in the environment the instance lives in. \<open>thrown\<close> collects what the
  effects of the instance throw, which React passes on to the application.
\<close>

record 'r world =
  supabase :: supabaseClient
  data :: "'r option"
  isLoaded :: bool
  channelRef :: "realtimeChannel option"
  isMounted :: bool
  logged :: "string list"
  reads :: "readRequest list"
  updates :: "'r updateRequest list"
  reruns :: nat
  thrown :: "error list"

definition world0 :: "supabaseClient \<Rightarrow> 'r world" where
  "world0 c = \<lparr>supabase = c, data = None, isLoaded = False, channelRef = None,
               isMounted = False, logged = [], reads = [], updates = [],
               reruns = 0, thrown = []\<rparr>"

definition logger :: "string \<Rightarrow> 'r world \<Rightarrow> 'r world" where
  "logger msg w = w\<lparr>logged := logged w @ [msg]\<rparr>"

section \<open>useRowState.ts: the operations of one instance\<close>

definition createNoopSetter :: "'r rowUpdater \<Rightarrow> 'r world \<Rightarrow> 'r world" where
  "createNoopSetter updater w = w"

definition channelKey :: "bindings \<Rightarrow> string" where
  "channelKey b = ''realtime-'' @ table b @ ''-'' @ rowId b"

text \<open>
  \<^verbatim>\<open>getChannels().find(ch => ch.subscribe().topic === channelKey)\<close>: the search visits the
  registered channels in order and calls \<^verbatim>\<open>subscribe()\<close> on each one it visits, up to the
  first whose topic is the key. The result is what the search throws or finds, with the
  channels as the calls left them.
\<close>

fun findExisting ::
  "string \<Rightarrow> realtimeChannel list \<Rightarrow> (error + realtimeChannel option) \<times> realtimeChannel list" where
  "findExisting key [] = (Inr None, [])"
| "findExisting key (ch # chs) =
     (case subscribe ch of
        Inl e \<Rightarrow> (Inl e, ch # chs)
      | Inr ch' \<Rightarrow>
          if topic ch' = key then (Inr (Some ch'), ch' # chs)
          else (case findExisting key chs of (r, chs') \<Rightarrow> (r, ch' # chs')))"

text \<open>
  The effect that looks for a live channel under the same key and warns. It returns what
  it throws, if anything, next to the state it leaves.
\<close>

definition checkExistingChannel :: "bindings \<Rightarrow> 'r world \<Rightarrow> error option \<times> 'r world" where
  "checkExistingChannel b w =
     (case findExisting (channelKey b) (getChannels (supabase w)) of
        (r, chs) \<Rightarrow>
          (let w1 = w\<lparr>supabase := (supabase w)\<lparr>channels := chs\<rparr>\<rparr>
           in case r of
                Inl e \<Rightarrow> (Some e, w1)
              | Inr (Some existingChannel) \<Rightarrow>
                  (None,
                   logger (''Warning: Channel '' @ channelKey b @
                           '' already exists. This might cause duplicate subscriptions.'') w1)
              | Inr None \<Rightarrow> (None, w1)))"

text \<open>The fetch effect: \<^verbatim>\<open>isMounted = true\<close>, then \<^verbatim>\<open>fetchRow()\<close> issues the point read.\<close>

definition fetchEffect :: "bindings \<Rightarrow> 'r world \<Rightarrow> 'r world" where
  "fetchEffect b w =
     w\<lparr>isMounted := True,
       reads := reads w @ [\<lparr>rd_table = table b, rd_select = select b,
                            rd_column = primaryKey b, rd_value = rowId b\<rparr>]\<rparr>"

text \<open>The continuation of \<^verbatim>\<open>fetchRow\<close> after the \<^verbatim>\<open>await\<close>.\<close>

definition fetchRow :: "bindings \<Rightarrow> 'r readResult \<Rightarrow> 'r world \<Rightarrow> 'r world" where
  "fetchRow b res w =
     (if \<not> isMounted w then w
      else
        let w1 = (case res_error res of
                    Some message \<Rightarrow>
                      logger (''Failed to fetch row from '' @ table b @ '': '' @ message) w
                  | None \<Rightarrow> w);
            w2 = w1\<lparr>isLoaded := True\<rparr>
        in (case res_data res of
              Some typedRow \<Rightarrow> w2\<lparr>data := Some typedRow\<rparr>
            | None \<Rightarrow> w2))"

text \<open>The cleanup of the fetch effect.\<close>

definition fetchCleanup :: "'r world \<Rightarrow> 'r world" where
  "fetchCleanup w = w\<lparr>isMounted := False\<rparr>"

text \<open>
  The realtime effect: release the channel in the ref, open a new one, subscribe it, store
  it. It returns what it throws, if anything, next to the state it leaves.
\<close>

definition subscribeEffect :: "bindings \<Rightarrow> 'r world \<Rightarrow> error option \<times> 'r world" where
  "subscribeEffect b w =
     (let c1 = (case channelRef w of
                  Some cur \<Rightarrow> removeChannel cur (supabase w)
                | None \<Rightarrow> supabase w);
          (ch, c2) = channel (channelKey b) c1
      in case subscribe ch of
           Inl e \<Rightarrow> (Some e, w\<lparr>supabase := c2\<rparr>)
         | Inr ch' \<Rightarrow> (None, w\<lparr>supabase := putChannel ch' c2, channelRef := Some ch'\<rparr>))"

text \<open>The callback installed on the channel for \<^verbatim>\<open>postgres_changes\<close>.\<close>

definition onPostgresChanges :: "'r payload \<Rightarrow> 'r world \<Rightarrow> 'r world" where
  "onPostgresChanges p w =
     (if eventType p = UPDATE \<or> eventType p = INSERT
      then w\<lparr>data := Some (new p), isLoaded := True\<rparr>
      else if eventType p = DELETE
      then w\<lparr>data := None\<rparr>
      else w)"

text \<open>
  Modelled from the spec: delivery of a change event by the library's client. The callback
  runs when the channel the instance opened is still registered with the client, and not
  otherwise (spec sections 4.1 and 6).
\<close>

definition deliver :: "'r payload \<Rightarrow> 'r world \<Rightarrow> 'r world" where
  "deliver p w =
     (case channelRef w of
        Some ch \<Rightarrow> if isLive ch (supabase w) then onPostgresChanges p w else w
      | None \<Rightarrow> w)"

text \<open>The cleanup of the realtime effect; the channel of the effect is the one in the ref.\<close>

definition subscribeCleanup :: "'r world \<Rightarrow> 'r world" where
  "subscribeCleanup w =
     (case channelRef w of
        Some ch \<Rightarrow> w\<lparr>supabase := removeChannel ch (supabase w)\<rparr>
      | None \<Rightarrow> w)"

text \<open>
  The function \<^verbatim>\<open>setRow\<close> hands to \<^verbatim>\<open>setData\<close>: from the previous value it computes the
  next one and, when \<^verbatim>\<open>autoSync && next\<close>, issues the point update. One run returns the
  next value and the updates that run issued.
\<close>

definition setRowUpdate ::
  "bindings \<Rightarrow> 'r rowUpdater \<Rightarrow> 'r option \<Rightarrow> 'r option \<times> 'r updateRequest list" where
  "setRowUpdate b updater prev =
     (let next = (case updater of Updater f \<Rightarrow> f prev | Literal v \<Rightarrow> v)
      in (next,
          case next of
            Some values \<Rightarrow>
              if autoSync b
              then [\<lparr>up_table = table b, up_values = values,
                     up_column = primaryKey b, up_value = rowId b\<rparr>]
              else []
          | None \<Rightarrow> []))"

text \<open>
  \<^verbatim>\<open>setRow\<close>: React runs the function once and \<open>reruns\<close> further times on the previous
  value; every run issues its updates, and the cell takes the value the function returns.
\<close>

definition setRow :: "bindings \<Rightarrow> 'r rowUpdater \<Rightarrow> 'r world \<Rightarrow> 'r world" where
  "setRow b updater w =
     (case setRowUpdate b updater (data w) of
        (next, issued) \<Rightarrow>
          w\<lparr>updates := updates w @ concat (replicate (Suc (reruns w)) issued),
            data := next\<rparr>)"

text \<open>The \<^verbatim>\<open>then\<close> callback of a point update, given the error message if there is one.\<close>

definition updateThen :: "string option \<Rightarrow> 'r world \<Rightarrow> 'r world" where
  "updateThen err w =
     (case err of
        Some message \<Rightarrow> logger (''Auto-sync failed: '' @ message) w
      | None \<Rightarrow> w)"

definition unsubscribe :: "'r world \<Rightarrow> 'r world" where
  "unsubscribe w =
     (case channelRef w of
        Some ch \<Rightarrow> w\<lparr>supabase := removeChannel ch (supabase w)\<rparr>
      | None \<Rightarrow> w)"

section \<open>useRowState.ts: the hook\<close>

text \<open>
  The tuple the hook returns: the value and the flag as rendered, and the two functions,
  which act on the instance.
\<close>

record 'r hookReturn =
  rt_data :: "'r option"
  rt_setRow :: "'r rowUpdater \<Rightarrow> 'r world \<Rightarrow> 'r world"
  rt_isLoaded :: bool
  rt_unsubscribe :: "'r world \<Rightarrow> 'r world"

definition bindingsOf :: "string \<Rightarrow> string \<Rightarrow> useSupabaseRowStateOptions \<Rightarrow> bindings" where
  "bindingsOf tbl rid options =
     \<lparr>table = tbl, rowId = rid,
      schema = orDefault ''public'' (opt_schema options),
      primaryKey = orDefault ''id'' (opt_primaryKey options),
      autoSync = orDefault True (opt_autoSync options),
      select = orDefault ''*'' (opt_select options)\<rparr>"

text \<open>
  The first call of the hook for an instance: the early return when the row id is null or
  undefined; otherwise the initial state cells, the returned tuple of the first render, and
  then the three effects in the order they are declared. When an effect throws, React runs
  no later effect of the instance and passes the thrown value on.
\<close>

definition useSupabaseRowState ::
  "string \<Rightarrow> string option \<Rightarrow> useSupabaseRowStateOptions \<Rightarrow> 'r world
     \<Rightarrow> 'r hookReturn \<times> 'r world" where
  "useSupabaseRowState tbl rid options w =
     (case rid of
        None \<Rightarrow>
          (\<lparr>rt_data = None, rt_setRow = createNoopSetter, rt_isLoaded = False,
            rt_unsubscribe = (\<lambda>w'. w')\<rparr>,
           if \<not> orDefault False (opt_skip options)
           then logger (''useSupabaseRowState: Invalid rowId for table '' @ tbl) w
           else w)
      | Some r \<Rightarrow>
          (let b = bindingsOf tbl r options;
               w0 = w\<lparr>data := None, isLoaded := False, channelRef := None\<rparr>
           in (\<lparr>rt_data = data w0, rt_setRow = setRow b, rt_isLoaded = isLoaded w0,
                 rt_unsubscribe = unsubscribe\<rparr>,
               case checkExistingChannel b w0 of
                 (Some e, w1) \<Rightarrow> w1\<lparr>thrown := thrown w1 @ [e]\<rparr>
               | (None, w1) \<Rightarrow>
                   (case subscribeEffect b (fetchEffect b w1) of
                      (Some e, w2) \<Rightarrow> w2\<lparr>thrown := thrown w2 @ [e]\<rparr>
                    | (None, w2) \<Rightarrow> w2))))"

text \<open>What can happen to a mounted instance, one event at a time.\<close>

datatype 'r event =
    ReadDone "'r readResult"
  | Change "'r payload"
  | SetRow "'r rowUpdater"
  | UpdateDone "string option"
  | Unsubscribe
  | Unmount

fun step :: "bindings \<Rightarrow> 'r world \<Rightarrow> 'r event \<Rightarrow> 'r world" where
  "step b w (ReadDone res) = fetchRow b res w"
| "step b w (Change p) = deliver p w"
| "step b w (SetRow updater) = setRow b updater w"
| "step b w (UpdateDone err) = updateThen err w"
| "step b w Unsubscribe = unsubscribe w"
| "step b w Unmount = subscribeCleanup (fetchCleanup w)"

definition run :: "bindings \<Rightarrow> 'r event list \<Rightarrow> 'r world \<Rightarrow> 'r world" where
  "run b evs w = foldl (step b) w evs"

text \<open>How often \<^verbatim>\<open>isLoaded\<close> changes, in either direction, along a sequence of events.\<close>

fun flips :: "bindings \<Rightarrow> 'r world \<Rightarrow> 'r event list \<Rightarrow> nat" where
  "flips b w [] = 0"
| "flips b w (e # evs) =
     (if isLoaded (step b w e) = isLoaded w then 0 else 1) + flips b (step b w e) evs"

text \<open>
  \<^verbatim>\<open>const supabase = getSupabaseClient()\<close> is evaluated once, when the hook's module is
  loaded; every later call of the hook uses the client resolved then.
\<close>

definition loadModule :: "registry \<Rightarrow> error + supabaseClient" where
  "loadModule reg = getSupabaseClient reg"

section \<open>A concrete instance\<close>

text \<open>
  The scenario of the repository's documentation: table \<^verbatim>\<open>profiles\<close>, row \<^verbatim>\<open>u1\<close>, default
  options, a client with no channel yet. Rows are association lists of column and value.
\<close>

type_synonym row = "(string \<times> string) list"

definition ann :: row where
  "ann = [(''id'', ''u1''), (''name'', ''Ann'')]"

definition ann2 :: row where
  "ann2 = [(''id'', ''u1''), (''name'', ''Ann2'')]"

definition client0 :: supabaseClient where
  "client0 = \<lparr>channels = []\<rparr>"

definition ch1 :: realtimeChannel where
  "ch1 = \<lparr>chanId = 1, topic = ''realtime-profiles-u1'', joinedOnce = True\<rparr>"

definition profiles :: bindings where
  "profiles = bindingsOf ''profiles'' ''u1'' noOptions"

definition mounted :: "row world" where
  "mounted = snd (useSupabaseRowState ''profiles'' (Some ''u1'') noOptions (world0 client0))"

text \<open>The updater of the documentation, \<^verbatim>\<open>prev => ({...prev, name: "X"})\<close>.\<close>

definition rename :: "row rowUpdater" where
  "rename =
     Updater (\<lambda>prev. case prev of
                        None \<Rightarrow> Some [(''name'', ''X'')]
                      | Some r \<Rightarrow> Some (map (\<lambda>(k, v). if k = ''name'' then (k, ''X'') else (k, v)) r))"

definition annX :: row where
  "annX = [(''id'', ''u1''), (''name'', ''X'')]"

text \<open>
  A second instance for the same table and row, mounted while the first is: fresh state
  cells, and the client as the first instance left it. The second world is the same under
  \<^verbatim>\<open>StrictMode\<close>, where React runs a state updater function twice.
\<close>

definition second :: "row hookReturn \<times> row world" where
  "second = useSupabaseRowState ''profiles'' (Some ''u1'') noOptions (world0 (supabase mounted))"

definition strict :: "row world" where
  "strict = mounted\<lparr>data := Some ann, reruns := 1\<rparr>"

section \<open>Properties\<close>


subsection \<open>The channel registry\<close>

lemma removeChannel_not_live: "\<not> isLive ch (removeChannel ch c)"
  by (auto simp: isLive_def removeChannel_def)

lemma removeChannel_twice: "removeChannel ch (removeChannel ch c) = removeChannel ch c"
  by (simp add: removeChannel_def)

lemma removeChannel_keeps_dead: "\<not> isLive ch c \<Longrightarrow> \<not> isLive ch (removeChannel ch' c)"
  by (auto simp: isLive_def removeChannel_def)

lemma channel_live: "channel key c = (ch, c') \<Longrightarrow> isLive ch c'"
  by (auto simp: channel_def isLive_def Let_def)

subsection \<open>What each operation leaves alone\<close>

lemma logger_fields:
  "supabase (logger m w) = supabase w" "data (logger m w) = data w"
  "isLoaded (logger m w) = isLoaded w" "channelRef (logger m w) = channelRef w"
  "isMounted (logger m w) = isMounted w" "updates (logger m w) = updates w"
  "reads (logger m w) = reads w" "logged (logger m w) = logged w @ [m]"
  by (simp_all add: logger_def)

lemma unsubscribe_fields:
  "data (unsubscribe w) = data w" "isLoaded (unsubscribe w) = isLoaded w"
  "channelRef (unsubscribe w) = channelRef w" "isMounted (unsubscribe w) = isMounted w"
  "updates (unsubscribe w) = updates w" "logged (unsubscribe w) = logged w"
  "reads (unsubscribe w) = reads w"
  by (simp_all add: unsubscribe_def split: option.splits)

lemma unsubscribe_dead: "channelRef w = Some ch \<Longrightarrow> \<not> isLive ch (supabase (unsubscribe w))"
  by (simp add: unsubscribe_def removeChannel_not_live)

lemma unsubscribe_twice: "unsubscribe (unsubscribe w) = unsubscribe w"
  by (simp add: unsubscribe_def removeChannel_twice split: option.splits)

lemma fetchRow_fields:
  "supabase (fetchRow b res w) = supabase w" "channelRef (fetchRow b res w) = channelRef w"
  "isMounted (fetchRow b res w) = isMounted w" "updates (fetchRow b res w) = updates w"
  by (simp_all add: fetchRow_def Let_def logger_fields split: option.splits)

lemma onPostgresChanges_fields:
  "supabase (onPostgresChanges p w) = supabase w"
  "channelRef (onPostgresChanges p w) = channelRef w"
  "isMounted (onPostgresChanges p w) = isMounted w"
  "updates (onPostgresChanges p w) = updates w"
  "logged (onPostgresChanges p w) = logged w"
  by (simp_all add: onPostgresChanges_def)

lemma deliver_fields:
  "supabase (deliver p w) = supabase w" "channelRef (deliver p w) = channelRef w"
  "isMounted (deliver p w) = isMounted w" "updates (deliver p w) = updates w"
  "logged (deliver p w) = logged w"
  by (simp_all add: deliver_def onPostgresChanges_fields split: option.splits)

lemma setRow_fields:
  "supabase (setRow b u w) = supabase w" "channelRef (setRow b u w) = channelRef w"
  "isMounted (setRow b u w) = isMounted w" "isLoaded (setRow b u w) = isLoaded w"
  "logged (setRow b u w) = logged w" "reruns (setRow b u w) = reruns w"
  by (simp_all add: setRow_def split: prod.splits)

lemma updateThen_fields:
  "supabase (updateThen err w) = supabase w" "channelRef (updateThen err w) = channelRef w"
  "isMounted (updateThen err w) = isMounted w" "isLoaded (updateThen err w) = isLoaded w"
  "data (updateThen err w) = data w" "updates (updateThen err w) = updates w"
  by (simp_all add: updateThen_def logger_fields split: option.splits)

lemma unmount_fields:
  "channelRef (subscribeCleanup (fetchCleanup w)) = channelRef w"
  "isMounted (subscribeCleanup (fetchCleanup w)) = False"
  "data (subscribeCleanup (fetchCleanup w)) = data w"
  "isLoaded (subscribeCleanup (fetchCleanup w)) = isLoaded w"
  by (simp_all add: subscribeCleanup_def fetchCleanup_def split: option.splits)

lemma unmount_dead:
  "channelRef w = Some ch \<Longrightarrow> \<not> isLive ch (supabase (subscribeCleanup (fetchCleanup w)))"
  by (simp add: subscribeCleanup_def fetchCleanup_def removeChannel_not_live)

subsection \<open>Invariants of a run\<close>

lemma step_channelRef: "channelRef (step b w e) = channelRef w"
  by (cases e)
     (simp_all add: fetchRow_fields deliver_fields setRow_fields updateThen_fields
        unsubscribe_fields unmount_fields)

lemma step_keeps_dead:
  assumes "channelRef w = Some ch" and "\<not> isLive ch (supabase w)"
  shows "\<not> isLive ch (supabase (step b w e))"
proof (cases e)
  case Unsubscribe
  with assms show ?thesis by (simp add: unsubscribe_dead)
next
  case Unmount
  with assms show ?thesis by (simp add: unmount_dead)
qed (use assms in \<open>simp_all add: fetchRow_fields deliver_fields setRow_fields updateThen_fields\<close>)

lemma step_keeps_unmounted: "\<not> isMounted w \<Longrightarrow> \<not> isMounted (step b w e)"
  by (cases e)
     (simp_all add: fetchRow_fields deliver_fields setRow_fields updateThen_fields
        unsubscribe_fields unmount_fields)

lemma run_snoc: "run b (evs @ [e]) w = step b (run b evs w) e"
  by (simp add: run_def)

lemma run_channelRef: "channelRef (run b evs w) = channelRef w"
  by (induction evs rule: rev_induct) (simp_all add: run_snoc step_channelRef, simp add: run_def)

lemma run_keeps_dead:
  "channelRef w = Some ch \<Longrightarrow> \<not> isLive ch (supabase w) \<Longrightarrow> \<not> isLive ch (supabase (run b evs w))"
proof (induction evs rule: rev_induct)
  case Nil
  then show ?case by (simp add: run_def)
next
  case (snoc e evs)
  then show ?case by (simp add: run_snoc step_keeps_dead run_channelRef)
qed

lemma run_keeps_unmounted: "\<not> isMounted w \<Longrightarrow> \<not> isMounted (run b evs w)"
proof (induction evs rule: rev_induct)
  case Nil
  then show ?case by (simp add: run_def)
next
  case (snoc e evs)
  then show ?case by (simp add: run_snoc step_keeps_unmounted)
qed

lemma deliver_dead:
  "channelRef w = None \<or> (\<exists>ch. channelRef w = Some ch \<and> \<not> isLive ch (supabase w)) \<Longrightarrow> deliver p w = w"
  by (auto simp: deliver_def)

lemma deliver_after_unsubscribe: "deliver p (run b evs (unsubscribe w)) = run b evs (unsubscribe w)"
proof (cases "channelRef w")
  case None
  then have "channelRef (run b evs (unsubscribe w)) = None"
    by (simp add: run_channelRef unsubscribe_fields)
  then show ?thesis by (simp add: deliver_dead)
next
  case (Some ch)
  then have "channelRef (run b evs (unsubscribe w)) = Some ch"
    and "\<not> isLive ch (supabase (run b evs (unsubscribe w)))"
    by (simp_all add: run_channelRef unsubscribe_fields run_keeps_dead unsubscribe_dead)
  then show ?thesis by (simp add: deliver_dead)
qed

lemma step_loaded_mono: "isLoaded w \<Longrightarrow> isLoaded (step b w e)"
  by (cases e)
     (auto simp: fetchRow_def Let_def logger_fields deliver_def onPostgresChanges_def
        setRow_fields updateThen_fields unsubscribe_fields unmount_fields split: option.splits)

lemma run_loaded_mono: "isLoaded w \<Longrightarrow> isLoaded (run b evs w)"
proof (induction evs rule: rev_induct)
  case Nil
  then show ?case by (simp add: run_def)
next
  case (snoc e evs)
  then show ?case by (simp add: run_snoc step_loaded_mono)
qed


subsection \<open>The mounted instance\<close>

lemma checkExistingChannel_cells:
  "checkExistingChannel b w = (r, w') \<Longrightarrow> data w' = data w \<and> isLoaded w' = isLoaded w"
  by (auto simp: checkExistingChannel_def Let_def logger_def
      split: prod.splits sum.splits option.splits)

lemma subscribeEffect_cells:
  "subscribeEffect b w = (r, w') \<Longrightarrow> data w' = data w \<and> isLoaded w' = isLoaded w"
  by (auto simp: subscribeEffect_def Let_def split: prod.splits sum.splits option.splits)

lemma fetchEffect_cells: "data (fetchEffect b w) = data w" "isLoaded (fetchEffect b w) = isLoaded w"
  by (simp_all add: fetchEffect_def)

lemma mount_fields:
  assumes "useSupabaseRowState tbl (Some r) options w = (ret, w')"
  shows "rt_data ret = None" and "rt_isLoaded ret = False"
    and "rt_setRow ret = setRow (bindingsOf tbl r options)" and "rt_unsubscribe ret = unsubscribe"
    and "data w' = None" and "isLoaded w' = False"
  using assms
  by (auto simp: useSupabaseRowState_def Let_def fetchEffect_cells
      split: option.splits prod.splits
      dest!: checkExistingChannel_cells subscribeEffect_cells)

lemma setRow_literal: "data (setRow b (Literal v) w) = v"
  by (simp add: setRow_def setRowUpdate_def)

lemma setRow_function: "data (setRow b (Updater f) w) = f (data w)"
  by (simp add: setRow_def setRowUpdate_def Let_def)

lemma setRow_updates:
  "updates (setRow b u w) =
     updates w @ concat (replicate (Suc (reruns w)) (snd (setRowUpdate b u (data w))))"
  by (simp add: setRow_def split: prod.splits)

lemma setRowUpdate_issued:
  "snd (setRowUpdate b u prev) =
     (case fst (setRowUpdate b u prev) of
        Some x \<Rightarrow>
          if autoSync b
          then [\<lparr>up_table = table b, up_values = x, up_column = primaryKey b,
                 up_value = rowId b\<rparr>]
          else []
      | None \<Rightarrow> [])"
  by (simp add: setRowUpdate_def Let_def)

lemma concat_replicate_single: "concat (replicate n [x]) = replicate n x"
  by (induction n) simp_all

lemma updateThen_logged:
  "logged (updateThen err w) =
     (case err of Some m \<Rightarrow> logged w @ [''Auto-sync failed: '' @ m] | None \<Rightarrow> logged w)"
  by (simp add: updateThen_def logger_fields split: option.splits)

lemma fetchRow_unmounted: "\<not> isMounted w \<Longrightarrow> fetchRow b res w = w"
  by (simp add: fetchRow_def)

lemma fetchRow_loaded: "isMounted w \<Longrightarrow> isLoaded (fetchRow b res w)"
  by (simp add: fetchRow_def Let_def split: option.splits)

lemma fetchRow_data:
  "isMounted w \<Longrightarrow>
   data (fetchRow b res w) = (case res_data res of Some r \<Rightarrow> Some r | None \<Rightarrow> data w)"
  by (simp add: fetchRow_def Let_def logger_fields split: option.splits)

lemma fetchRow_logged:
  "isMounted w \<Longrightarrow>
   logged (fetchRow b res w) =
     (case res_error res of
        Some m \<Rightarrow> logged w @ [''Failed to fetch row from '' @ table b @ '': '' @ m]
      | None \<Rightarrow> logged w)"
  by (simp add: fetchRow_def Let_def logger_fields split: option.splits)

lemma deliver_live:
  "channelRef w = Some ch \<Longrightarrow> isLive ch (supabase w) \<Longrightarrow> deliver p w = onPostgresChanges p w"
  by (simp add: deliver_def)

subsection \<open>The concrete instance, evaluated\<close>

lemma mounted_eq:
  "mounted = \<lparr>supabase = \<lparr>channels = [ch1]\<rparr>, data = None, isLoaded = False,
              channelRef = Some ch1, isMounted = True, logged = [],
              reads = [\<lparr>rd_table = ''profiles'', rd_select = ''*'', rd_column = ''id'',
                        rd_value = ''u1''\<rparr>],
              updates = [], reruns = 0, thrown = []\<rparr>"
  by (simp add: mounted_def useSupabaseRowState_def bindingsOf_def noOptions_def orDefault_def
      world0_def client0_def checkExistingChannel_def getChannels_def fetchEffect_def
      subscribeEffect_def channel_def freshChanId_def channelKey_def ch1_def Let_def
      subscribe_def putChannel_def)

lemma profiles_eq:
  "profiles = \<lparr>table = ''profiles'', rowId = ''u1'', schema = ''public'', primaryKey = ''id'',
                autoSync = True, select = ''*''\<rparr>"
  by (simp add: profiles_def bindingsOf_def noOptions_def orDefault_def)

lemma mounted_attached:
  "channelRef mounted = Some ch1" "isLive ch1 (supabase mounted)" "isMounted mounted"
  by (simp_all add: mounted_eq isLive_def)

lemma run_Cons: "run b (e # evs) w = run b evs (step b w e)"
  by (simp add: run_def)

lemma run_Nil: "run b [] w = w"
  by (simp add: run_def)

subsection \<open>The loaded flag along a run\<close>

lemma step_loaded_iff:
  "isLoaded (step b w e) =
     (isLoaded w \<or>
      (\<exists>res. e = ReadDone res \<and> isMounted w) \<or>
      (\<exists>p ch. e = Change p \<and> (eventType p = INSERT \<or> eventType p = UPDATE) \<and>
              channelRef w = Some ch \<and> isLive ch (supabase w)))"
  by (cases e)
     (auto simp: fetchRow_def Let_def logger_fields deliver_def onPostgresChanges_def
        setRow_fields updateThen_fields unsubscribe_fields unmount_fields split: option.splits)

lemma flips_loaded: "isLoaded w \<Longrightarrow> flips b w evs = 0"
  by (induction evs arbitrary: w) (simp_all add: step_loaded_mono)

lemma flips_unloaded:
  "\<not> isLoaded w \<Longrightarrow> flips b w evs = (if isLoaded (run b evs w) then 1 else 0)"
proof (induction evs arbitrary: w)
  case Nil
  then show ?case by (simp add: run_Nil)
next
  case (Cons e evs)
  show ?case
  proof (cases "isLoaded (step b w e)")
    case True
    then have "isLoaded (run b evs (step b w e))" by (rule run_loaded_mono)
    with True Cons.prems show ?thesis by (simp add: run_Cons flips_loaded)
  next
    case False
    with Cons show ?thesis by (simp add: run_Cons)
  qed
qed

subsection \<open>The registry after a sequence of initialisations\<close>

lemma init_calls: "foldl (\<lambda>reg c. initSupabaseState c reg) reg cs = (if cs = [] then reg else Some (last cs))"
  by (induction cs arbitrary: reg) (simp_all add: initSupabaseState_def)

lemma getSupabaseClient_fails:
  "(getSupabaseClient (foldl (\<lambda>reg c. initSupabaseState c reg) registry0 cs) = Inl e) =
     (cs = [] \<and> e = Error notInitialized)"
  by (auto simp: init_calls getSupabaseClient_def registry0_def)

subsection \<open>The second instance and the instance under StrictMode, evaluated\<close>

lemma second_eq:
  "snd second =
     \<lparr>supabase = \<lparr>channels = [ch1]\<rparr>, data = None, isLoaded = False, channelRef = None,
      isMounted = False, logged = [], reads = [], updates = [], reruns = 0,
      thrown = [Error subscribedTwice]\<rparr>"
  by (simp add: second_def mounted_eq useSupabaseRowState_def bindingsOf_def noOptions_def
      orDefault_def world0_def checkExistingChannel_def getChannels_def channelKey_def
      ch1_def subscribe_def Let_def)

lemma rename_ann: "setRowUpdate profiles rename (Some ann) =
    (Some annX, [\<lparr>up_table = ''profiles'', up_values = annX, up_column = ''id'',
                   up_value = ''u1''\<rparr>])"
  by (simp add: setRowUpdate_def rename_def ann_def annX_def profiles_eq Let_def)

section \<open>The claims\<close>

subsection \<open>C1: a change event before the read resolves\<close>

text \<open>
  C1, as the code has it. When an insert or update event is delivered to an attached,
  mounted instance and the initial read resolves afterwards, the read sets the loaded flag,
  and the value is the row the read returned when it returned one: the read overwrites the
  event's row. The value stays the event's new row only when the read returned no row.
\<close>

theorem read_after_change:
  assumes "channelRef w = Some ch" and "isLive ch (supabase w)" and "isMounted w"
    and "eventType p = INSERT \<or> eventType p = UPDATE"
  shows "isLoaded (fetchRow b res (deliver p w)) \<and>
         data (fetchRow b res (deliver p w)) =
           (case res_data res of Some r \<Rightarrow> Some r | None \<Rightarrow> Some (new p))"
proof -
  have d: "deliver p w = onPostgresChanges p w"
    using assms(1,2) by (rule deliver_live)
  have m: "isMounted (deliver p w)"
    using assms(3) by (simp add: deliver_fields)
  have v: "data (deliver p w) = Some (new p)"
    using assms(4) by (auto simp: d onPostgresChanges_def)
  show ?thesis
    using m v by (simp add: fetchRow_loaded fetchRow_data split: option.splits)
qed

text \<open>The theorem at the documented scenario, for a read that returns a row and one that fails.\<close>

theorem read_after_change_witness:
  "isLoaded (fetchRow profiles \<lparr>res_data = Some ann, res_error = None\<rparr>
               (deliver \<lparr>eventType = UPDATE, new = ann2\<rparr> mounted)) \<and>
   data (fetchRow profiles \<lparr>res_data = Some ann, res_error = None\<rparr>
               (deliver \<lparr>eventType = UPDATE, new = ann2\<rparr> mounted)) = Some ann \<and>
   data (fetchRow profiles \<lparr>res_data = None, res_error = Some ''no rows''\<rparr>
               (deliver \<lparr>eventType = UPDATE, new = ann2\<rparr> mounted)) = Some ann2"
  using read_after_change [OF mounted_attached, of "\<lparr>eventType = UPDATE, new = ann2\<rparr>" profiles
      "\<lparr>res_data = Some ann, res_error = None\<rparr>"]
    read_after_change [OF mounted_attached, of "\<lparr>eventType = UPDATE, new = ann2\<rparr>" profiles
      "\<lparr>res_data = None, res_error = Some ''no rows''\<rparr>"]
  by simp

text \<open>
  C1 as stated fails: an update event with the row \<open>ann2\<close> followed by a read returning
  \<open>ann\<close> leaves the value at the read's row, not at the event's.
\<close>

theorem read_overwrites_change:
  "data (run profiles [Change \<lparr>eventType = UPDATE, new = ann2\<rparr>,
                       ReadDone \<lparr>res_data = Some ann, res_error = None\<rparr>] mounted)
     \<noteq> Some (new \<lparr>eventType = UPDATE, new = ann2\<rparr>)"
  by (simp add: run_def mounted_eq deliver_def isLive_def onPostgresChanges_def fetchRow_def
      ann_def ann2_def)

subsection \<open>C2: after the returned unsubscribe function\<close>

text \<open>
  C2, as the code has it. Calling \<^verbatim>\<open>unsubscribe\<close> twice is the same as calling it once.
  After \<^verbatim>\<open>unsubscribe\<close>, whatever else happens, a change event is not delivered and
  changes nothing. The same holds after the effect cleanups have run (unmount), and then a
  late read completion changes nothing either. \<^verbatim>\<open>unsubscribe\<close> alone does not cancel the
  read: on an instance that is still mounted, a read completing after it sets the loaded
  flag and, when it returned a row, the value.
\<close>

theorem after_unsubscribe:
  "unsubscribe (unsubscribe w) = unsubscribe w \<and>
   deliver p (run b evs (unsubscribe w)) = run b evs (unsubscribe w) \<and>
   deliver p (run b evs (step b w Unmount)) = run b evs (step b w Unmount) \<and>
   fetchRow b res (run b evs (step b w Unmount)) = run b evs (step b w Unmount) \<and>
   (isMounted w \<longrightarrow>
      isLoaded (fetchRow b res (unsubscribe w)) \<and>
      data (fetchRow b res (unsubscribe w)) =
        (case res_data res of Some r \<Rightarrow> Some r | None \<Rightarrow> data w))"
proof -
  let ?u = "step b w Unmount"
  have a: "unsubscribe (unsubscribe w) = unsubscribe w"
    by (rule unsubscribe_twice)
  have b: "deliver p (run b evs (unsubscribe w)) = run b evs (unsubscribe w)"
    by (rule deliver_after_unsubscribe)
  have "\<not> isMounted ?u"
    by (simp add: unmount_fields)
  then have "\<not> isMounted (run b evs ?u)"
    by (rule run_keeps_unmounted)
  then have d: "fetchRow b res (run b evs ?u) = run b evs ?u"
    by (rule fetchRow_unmounted)
  have c: "deliver p (run b evs ?u) = run b evs ?u"
  proof (cases "channelRef w")
    case None
    then have "channelRef (run b evs ?u) = None"
      by (simp add: run_channelRef unmount_fields)
    then show ?thesis by (simp add: deliver_dead)
  next
    case (Some ch)
    then have "channelRef ?u = Some ch" and "\<not> isLive ch (supabase ?u)"
      by (simp_all add: unmount_fields unmount_dead)
    then have "channelRef (run b evs ?u) = Some ch" and "\<not> isLive ch (supabase (run b evs ?u))"
      by (simp_all add: run_channelRef run_keeps_dead)
    then show ?thesis by (simp add: deliver_dead)
  qed
  have e: "isMounted w \<longrightarrow>
      isLoaded (fetchRow b res (unsubscribe w)) \<and>
      data (fetchRow b res (unsubscribe w)) =
        (case res_data res of Some r \<Rightarrow> Some r | None \<Rightarrow> data w)"
    by (simp add: fetchRow_loaded fetchRow_data unsubscribe_fields split: option.splits)
  from a b c d e show ?thesis by blast
qed

text \<open>The theorem at the documented scenario.\<close>

theorem after_unsubscribe_witness:
  "isMounted mounted \<and>
   deliver \<lparr>eventType = UPDATE, new = ann2\<rparr> (run profiles [SetRow (Literal (Some ann))] (unsubscribe mounted))
     = run profiles [SetRow (Literal (Some ann))] (unsubscribe mounted) \<and>
   data (run profiles [SetRow (Literal (Some ann))] (unsubscribe mounted)) = Some ann \<and>
   data (fetchRow profiles \<lparr>res_data = Some ann, res_error = None\<rparr> (unsubscribe mounted)) = Some ann"
  using after_unsubscribe [of mounted "\<lparr>eventType = UPDATE, new = ann2\<rparr>" profiles
      "[SetRow (Literal (Some ann))]" "\<lparr>res_data = Some ann, res_error = None\<rparr>"]
  by (simp add: mounted_attached run_def setRow_literal unsubscribe_fields)

text \<open>
  C2 as stated fails: after \<^verbatim>\<open>unsubscribe\<close>, a read that completes with the row \<open>ann\<close>
  changes both the value and the loaded flag.
\<close>

theorem read_after_unsubscribe_mutates:
  "data (run profiles [Unsubscribe, ReadDone \<lparr>res_data = Some ann, res_error = None\<rparr>] mounted)
     \<noteq> data (run profiles [Unsubscribe] mounted) \<and>
   isLoaded (run profiles [Unsubscribe, ReadDone \<lparr>res_data = Some ann, res_error = None\<rparr>] mounted)
     \<noteq> isLoaded (run profiles [Unsubscribe] mounted)"
  by (simp add: run_def mounted_eq unsubscribe_def fetchRow_def)

subsection \<open>C3: the optimistic setter\<close>

text \<open>
  C3, at an input where the code departs from it. The instance of the documentation holds
  the row \<open>ann\<close> and lives under \<^verbatim>\<open>StrictMode\<close>, where React runs the function handed to
  \<^verbatim>\<open>setData\<close> twice. One call of \<^verbatim>\<open>setRow\<close> with the documented updater sets the value
  to the renamed row, as the claim says, but issues the point update twice, once per run of
  the function, where the claim says exactly one update is scheduled per call.
\<close>

theorem setRow_updates_twice:
  "reruns strict = 1 \<and> data strict = Some ann \<and> updates strict = [] \<and>
   data (setRow profiles rename strict) = Some annX \<and>
   updates (setRow profiles rename strict) =
     [\<lparr>up_table = ''profiles'', up_values = annX, up_column = ''id'', up_value = ''u1''\<rparr>,
      \<lparr>up_table = ''profiles'', up_values = annX, up_column = ''id'', up_value = ''u1''\<rparr>]"
  by (simp add: strict_def mounted_eq setRow_def rename_ann)

subsection \<open>C4: completion of the initial read\<close>

text \<open>
  C4. When the read completes on a mounted instance, the loaded flag is set whatever the
  result. A result without a row leaves the value as it is; an error is logged. For the
  result of a read that expects exactly one row, a missing row comes with an error, so it
  is logged, and an error comes without a row, so the value is kept.
\<close>

theorem read_completion:
  assumes "isMounted w"
  shows "isLoaded (fetchRow b res w) \<and>
         (res_data res = None \<longrightarrow> data (fetchRow b res w) = data w) \<and>
         (\<forall>m. res_error res = Some m \<longrightarrow>
            logged (fetchRow b res w) =
              logged w @ [''Failed to fetch row from '' @ table b @ '': '' @ m]) \<and>
         (singleResult res \<longrightarrow> res_data res = None \<longrightarrow>
            (\<exists>m. logged (fetchRow b res w) =
                    logged w @ [''Failed to fetch row from '' @ table b @ '': '' @ m])) \<and>
         (singleResult res \<longrightarrow> res_error res \<noteq> None \<longrightarrow> data (fetchRow b res w) = data w)"
  using assms
  by (auto simp: fetchRow_loaded fetchRow_data fetchRow_logged singleResult_def
      split: option.splits)

text \<open>
  The theorem for a read that fails after the change feed has delivered the row \<open>ann2\<close>:
  the row stays.
\<close>

theorem read_completion_witness:
  "isMounted (deliver \<lparr>eventType = UPDATE, new = ann2\<rparr> mounted) \<and>
   singleResult \<lparr>res_data = (None :: row option), res_error = Some ''no rows''\<rparr> \<and>
   isLoaded (fetchRow profiles \<lparr>res_data = None, res_error = Some ''no rows''\<rparr>
               (deliver \<lparr>eventType = UPDATE, new = ann2\<rparr> mounted)) \<and>
   data (fetchRow profiles \<lparr>res_data = None, res_error = Some ''no rows''\<rparr>
               (deliver \<lparr>eventType = UPDATE, new = ann2\<rparr> mounted)) = Some ann2 \<and>
   logged (fetchRow profiles \<lparr>res_data = None, res_error = Some ''no rows''\<rparr>
               (deliver \<lparr>eventType = UPDATE, new = ann2\<rparr> mounted)) =
     [''Failed to fetch row from profiles: no rows'']"
proof -
  let ?w = "deliver \<lparr>eventType = UPDATE, new = ann2\<rparr> mounted"
  let ?res = "\<lparr>res_data = (None :: row option), res_error = Some ''no rows''\<rparr>"
  have m: "isMounted ?w"
    by (simp add: deliver_fields mounted_attached)
  have s: "singleResult ?res"
    by (simp add: singleResult_def)
  have d: "data ?w = Some ann2"
    by (simp add: deliver_live [OF mounted_attached(1,2)] onPostgresChanges_def)
  have l: "logged ?w = []"
    by (simp add: deliver_fields mounted_eq)
  from read_completion [OF m, of profiles ?res] m s d l show ?thesis
    by (simp add: profiles_eq)
qed

subsection \<open>C5: change events\<close>

text \<open>
  C5. On an attached instance (its channel is registered with the client), an insert or
  update event sets the value to the event's new row and the loaded flag to true; a delete
  event sets the value to null and leaves the loaded flag as it is.
\<close>

theorem change_event:
  assumes "channelRef w = Some ch" and "isLive ch (supabase w)"
  shows "(eventType p = INSERT \<or> eventType p = UPDATE \<longrightarrow>
            data (deliver p w) = Some (new p) \<and> isLoaded (deliver p w)) \<and>
         (eventType p = DELETE \<longrightarrow>
            data (deliver p w) = None \<and> isLoaded (deliver p w) = isLoaded w)"
  using assms by (auto simp: deliver_def onPostgresChanges_def)

text \<open>The theorem at the documented scenario: an insert, and a delete on a loaded instance.\<close>

theorem change_event_witness:
  "channelRef mounted = Some ch1 \<and> isLive ch1 (supabase mounted) \<and>
   data (deliver \<lparr>eventType = INSERT, new = ann\<rparr> mounted) = Some ann \<and>
   isLoaded (deliver \<lparr>eventType = INSERT, new = ann\<rparr> mounted) \<and>
   data (deliver \<lparr>eventType = DELETE, new = []\<rparr> (mounted\<lparr>data := Some ann, isLoaded := True\<rparr>)) = None \<and>
   isLoaded (deliver \<lparr>eventType = DELETE, new = []\<rparr> (mounted\<lparr>data := Some ann, isLoaded := True\<rparr>))"
  using change_event [OF mounted_attached(1,2), of "\<lparr>eventType = INSERT, new = ann\<rparr>"]
    change_event [of "mounted\<lparr>data := Some ann, isLoaded := True\<rparr>" ch1
      "\<lparr>eventType = DELETE, new = []\<rparr>"]
  by (simp add: mounted_attached)

subsection \<open>C6: a missing row id\<close>

text \<open>
  C6. Called with a null or undefined row id, the hook returns the value null, the loaded
  flag false, and a setter and an unsubscribe function that do nothing. It logs exactly one
  message when \<^verbatim>\<open>skip\<close> is false (the default) and nothing when \<^verbatim>\<open>skip\<close> is true; nothing
  else changes.
\<close>

theorem invalid_rowId:
  "rt_data (fst (useSupabaseRowState tbl None options w)) = None \<and>
   rt_isLoaded (fst (useSupabaseRowState tbl None options w)) = False \<and>
   rt_setRow (fst (useSupabaseRowState tbl None options w)) u x = x \<and>
   rt_unsubscribe (fst (useSupabaseRowState tbl None options w)) x = x \<and>
   snd (useSupabaseRowState tbl None options w) =
     (if orDefault False (opt_skip options) then w
      else w\<lparr>logged := logged w @ [''useSupabaseRowState: Invalid rowId for table '' @ tbl]\<rparr>)"
  by (simp add: useSupabaseRowState_def createNoopSetter_def logger_def)

text \<open>The theorem for the table \<^verbatim>\<open>profiles\<close>, without and with \<^verbatim>\<open>skip\<close>.\<close>

theorem invalid_rowId_witness:
  "rt_data (fst (useSupabaseRowState ''profiles'' None noOptions (world0 client0 :: row world))) = None \<and>
   logged (snd (useSupabaseRowState ''profiles'' None noOptions (world0 client0 :: row world))) =
     [''useSupabaseRowState: Invalid rowId for table profiles''] \<and>
   logged (snd (useSupabaseRowState ''profiles'' None (noOptions\<lparr>opt_skip := Some True\<rparr>)
                  (world0 client0 :: row world))) = []"
  using invalid_rowId [of "''profiles''" noOptions "world0 client0 :: row world"]
    invalid_rowId [of "''profiles''" "noOptions\<lparr>opt_skip := Some True\<rparr>" "world0 client0 :: row world"]
  by (simp add: noOptions_def orDefault_def world0_def)

subsection \<open>C7: the loaded flag is monotonic\<close>

text \<open>
  C7. The loaded flag is false at the first render and after the effects of the first
  call. Once true it stays true along every sequence of events. One event makes it true
  exactly when it is a read completion on a mounted instance or an insert or update event
  delivered on the live channel. Along any sequence of events the flag changes at most
  once: once if it goes from false to true, never otherwise.
\<close>

theorem loaded_monotonic:
  "rt_isLoaded (fst (useSupabaseRowState tbl (Some r) options w0)) = False \<and>
   isLoaded (snd (useSupabaseRowState tbl (Some r) options w0)) = False \<and>
   (isLoaded w \<longrightarrow> isLoaded (run b evs w)) \<and>
   isLoaded (step b w e) =
     (isLoaded w \<or>
      (\<exists>res. e = ReadDone res \<and> isMounted w) \<or>
      (\<exists>p ch. e = Change p \<and> (eventType p = INSERT \<or> eventType p = UPDATE) \<and>
              channelRef w = Some ch \<and> isLive ch (supabase w))) \<and>
   flips b w evs = (if \<not> isLoaded w \<and> isLoaded (run b evs w) then 1 else 0)"
proof -
  obtain ret w' where m: "useSupabaseRowState tbl (Some r) options w0 = (ret, w')"
    by (cases "useSupabaseRowState tbl (Some r) options w0")
  have a: "rt_isLoaded (fst (useSupabaseRowState tbl (Some r) options w0)) = False"
    and b: "isLoaded (snd (useSupabaseRowState tbl (Some r) options w0)) = False"
    using mount_fields(2,6) [OF m] by (simp_all add: m)
  have c: "isLoaded w \<longrightarrow> isLoaded (run b evs w)"
    by (simp add: run_loaded_mono)
  have d: "flips b w evs = (if \<not> isLoaded w \<and> isLoaded (run b evs w) then 1 else 0)"
    by (cases "isLoaded w") (simp_all add: flips_loaded flips_unloaded)
  from a b c d step_loaded_iff [of b w e] show ?thesis by blast
qed

text \<open>
  The theorem on a run where an insert arrives first, then a failed read, a delete, and the
  teardown.
\<close>

theorem loaded_monotonic_witness:
  "isLoaded (run profiles [ReadDone \<lparr>res_data = None, res_error = Some ''no rows''\<rparr>,
                          Change \<lparr>eventType = DELETE, new = []\<rparr>, Unsubscribe, Unmount]
               (step profiles mounted (Change \<lparr>eventType = INSERT, new = ann\<rparr>))) \<and>
   \<not> isLoaded mounted \<and>
   isLoaded (step profiles mounted (Change \<lparr>eventType = INSERT, new = ann\<rparr>)) \<and>
   flips profiles mounted
     [Change \<lparr>eventType = INSERT, new = ann\<rparr>,
      ReadDone \<lparr>res_data = None, res_error = Some ''no rows''\<rparr>,
      Change \<lparr>eventType = DELETE, new = []\<rparr>, Unsubscribe, Unmount] = 1"
proof -
  let ?e = "Change \<lparr>eventType = INSERT, new = ann\<rparr>"
  let ?evs = "[ReadDone \<lparr>res_data = None, res_error = Some ''no rows''\<rparr>,
               Change \<lparr>eventType = DELETE, new = []\<rparr>, Unsubscribe, Unmount]"
  have u: "\<not> isLoaded mounted"
    by (simp add: mounted_eq)
  have s: "isLoaded (step profiles mounted ?e)"
    using loaded_monotonic [of "''profiles''" "''u1''" noOptions "world0 client0 :: row world" mounted
        profiles "[]" ?e]
    by (simp add: mounted_attached)
  have r: "isLoaded (run profiles ?evs (step profiles mounted ?e))"
    using s loaded_monotonic [of "''profiles''" "''u1''" noOptions "world0 client0 :: row world"
        "step profiles mounted ?e" profiles ?evs ?e]
    by blast
  have r': "isLoaded (run profiles (?e # ?evs) mounted)"
    using r by (simp only: run_Cons)
  have f: "flips profiles mounted (?e # ?evs) = 1"
    using u r' loaded_monotonic [of "''profiles''" "''u1''" noOptions "world0 client0 :: row world"
        mounted profiles "?e # ?evs" ?e]
    by (simp del: flips.simps step.simps)
  from u s r f show ?thesis by blast
qed

subsection \<open>C8: the initial value\<close>

text \<open>
  C8, as the code has it. With a row id present, the first render returns the value null
  and the loaded flag false, and so does the state after the effects of the first call.
  There is no value other than null and a row: the initial value is the null a delete
  event writes. A delete event that comes first leaves the instance exactly as it was, at
  null and not loaded, and a delete event delivered at any time brings the value back to
  null without touching the loaded flag. What does not come back is the loaded flag: once
  true it is never false again, whatever events follow.
\<close>

theorem initial_value:
  "rt_data (fst (useSupabaseRowState tbl (Some r) options w0)) = None \<and>
   rt_isLoaded (fst (useSupabaseRowState tbl (Some r) options w0)) = False \<and>
   data (snd (useSupabaseRowState tbl (Some r) options w0)) = None \<and>
   isLoaded (snd (useSupabaseRowState tbl (Some r) options w0)) = False \<and>
   (eventType p = DELETE \<longrightarrow>
      deliver p (snd (useSupabaseRowState tbl (Some r) options w0)) =
        snd (useSupabaseRowState tbl (Some r) options w0)) \<and>
   (eventType p = DELETE \<longrightarrow> channelRef w = Some ch \<longrightarrow> isLive ch (supabase w) \<longrightarrow>
      data (deliver p w) = None \<and> isLoaded (deliver p w) = isLoaded w) \<and>
   (isLoaded w \<longrightarrow> isLoaded (run b evs w))"
proof -
  obtain ret w' where m: "useSupabaseRowState tbl (Some r) options w0 = (ret, w')"
    by (cases "useSupabaseRowState tbl (Some r) options w0")
  have i: "rt_data ret = None" "rt_isLoaded ret = False" "data w' = None" "isLoaded w' = False"
    using mount_fields(1,2,5,6) [OF m] by simp_all
  have "w'\<lparr>data := None\<rparr> = w'"
    using i(3) by simp
  then have d: "eventType p = DELETE \<longrightarrow> deliver p w' = w'"
    by (simp add: deliver_def onPostgresChanges_def split: option.splits)
  have e: "eventType p = DELETE \<longrightarrow> channelRef w = Some ch \<longrightarrow> isLive ch (supabase w) \<longrightarrow>
      data (deliver p w) = None \<and> isLoaded (deliver p w) = isLoaded w"
    by (simp add: deliver_def onPostgresChanges_def)
  have f: "isLoaded w \<longrightarrow> isLoaded (run b evs w)"
    by (simp add: run_loaded_mono)
  from i d e f show ?thesis
    by (simp add: m)
qed

text \<open>
  The theorem at the documented scenario: a delete that comes first changes nothing, and
  after a read a delete leaves the value null while loaded stays true.
\<close>

theorem initial_value_witness:
  "data mounted = None \<and> \<not> isLoaded mounted \<and>
   deliver \<lparr>eventType = DELETE, new = []\<rparr> mounted = mounted \<and>
   isLoaded (fetchRow profiles \<lparr>res_data = Some ann, res_error = None\<rparr> mounted) \<and>
   isLoaded (run profiles [Change \<lparr>eventType = DELETE, new = []\<rparr>]
               (fetchRow profiles \<lparr>res_data = Some ann, res_error = None\<rparr> mounted)) \<and>
   data (deliver \<lparr>eventType = DELETE, new = []\<rparr>
               (fetchRow profiles \<lparr>res_data = Some ann, res_error = None\<rparr> mounted)) = None"
proof -
  let ?w = "fetchRow profiles \<lparr>res_data = Some ann, res_error = None\<rparr> mounted"
  let ?del = "\<lparr>eventType = DELETE, new = ([] :: row)\<rparr>"
  have l: "isLoaded ?w"
    by (simp add: fetchRow_loaded mounted_attached)
  have a: "channelRef ?w = Some ch1" "isLive ch1 (supabase ?w)"
    by (simp_all add: fetchRow_fields mounted_attached)
  note t = initial_value [of "''profiles''" "''u1''" noOptions "world0 client0 :: row world"
      ?del ?w ch1 profiles "[Change ?del]"]
  from t l a show ?thesis
    by (simp add: mounted_def)
qed

text \<open>
  C8 as stated fails: the value of the first render is null itself, the value an update
  event replaces and a delete event brings back.
\<close>

theorem initial_value_is_null:
  "rt_data (fst (useSupabaseRowState ''profiles'' (Some ''u1'') noOptions
                   (world0 client0 :: row world))) = None \<and>
   data (run profiles [Change \<lparr>eventType = UPDATE, new = ann2\<rparr>] mounted) = Some ann2 \<and>
   data (run profiles [Change \<lparr>eventType = UPDATE, new = ann2\<rparr>,
                       Change \<lparr>eventType = DELETE, new = []\<rparr>] mounted) =
     rt_data (fst (useSupabaseRowState ''profiles'' (Some ''u1'') noOptions
                     (world0 client0 :: row world)))"
  by (simp add: run_def mounted_eq deliver_def isLive_def onPostgresChanges_def
      useSupabaseRowState_def Let_def)

subsection \<open>C9: the configuration error\<close>

text \<open>
  C9, at an input where the code departs from it. The registry is initialised, so loading
  the hook's module resolves the client and no configuration error arises. A second
  instance for the same table and row is mounted while the first is. Its first effect
  searches the registered channels by calling \<^verbatim>\<open>subscribe()\<close> on them; the first
  instance's channel is subscribed already, the library throws, and that error, which is
  not the configuration error, leaves the hook's effect: no later effect runs, nothing is
  logged, no read is issued.
\<close>

theorem second_mount_throws:
  "loadModule (initSupabaseState (supabase mounted) registry0) = Inr (supabase mounted) \<and>
   thrown (snd second) = [Error subscribedTwice] \<and>
   Error subscribedTwice \<noteq> Error notInitialized \<and>
   logged (snd second) = [] \<and> reads (snd second) = [] \<and> \<not> isMounted (snd second)"
  by (simp add: second_eq loadModule_def getSupabaseClient_def initSupabaseState_def
      subscribedTwice_def notInitialized_def)

subsection \<open>C10: the setter after unsubscribe\<close>

text \<open>
  C10. Take the state \<open>s\<close> reached after the returned unsubscribe function has been called
  and any events have followed. The returned setter called with a literal sets the value
  to the literal; called with a function it sets the value to the function applied to the
  value in \<open>s\<close>. When \<^verbatim>\<open>autoSync\<close> holds and the new value is a row, the point update for
  that row is issued, once for every run React makes of the setter's function, so at least
  once. The unsubscribe function itself changes neither the value nor the issued updates.
\<close>

theorem setRow_after_unsubscribe:
  assumes "useSupabaseRowState tbl (Some r) options w0 = (ret, w1)"
    and "s = run (bindingsOf tbl r options) evs (rt_unsubscribe ret w)"
  shows "data (rt_setRow ret (Literal v) s) = v \<and>
         data (rt_setRow ret (Updater f) s) = f (data s) \<and>
         (orDefault True (opt_autoSync options) \<longrightarrow>
            updates (rt_setRow ret (Literal (Some x)) s) =
              updates s @
              replicate (Suc (reruns s))
                \<lparr>up_table = tbl, up_values = x,
                  up_column = orDefault ''id'' (opt_primaryKey options), up_value = r\<rparr>) \<and>
         (orDefault True (opt_autoSync options) \<longrightarrow> f (data s) = Some x \<longrightarrow>
            updates (rt_setRow ret (Updater f) s) =
              updates s @
              replicate (Suc (reruns s))
                \<lparr>up_table = tbl, up_values = x,
                  up_column = orDefault ''id'' (opt_primaryKey options), up_value = r\<rparr>) \<and>
         data (rt_unsubscribe ret w) = data w \<and>
         updates (rt_unsubscribe ret w) = updates w"
proof -
  let ?b = "bindingsOf tbl r options"
  have c: "rt_setRow ret = setRow ?b" "rt_unsubscribe ret = unsubscribe"
    using mount_fields(3,4) [OF assms(1)] by simp_all
  have b: "autoSync ?b = orDefault True (opt_autoSync options)" "table ?b = tbl"
    "primaryKey ?b = orDefault ''id'' (opt_primaryKey options)" "rowId ?b = r"
    by (simp_all add: bindingsOf_def)
  have l: "updates (setRow ?b (Literal (Some x)) s) =
      updates s @ concat (replicate (Suc (reruns s))
        (if autoSync ?b
         then [\<lparr>up_table = table ?b, up_values = x, up_column = primaryKey ?b,
                up_value = rowId ?b\<rparr>]
         else []))"
    by (simp add: setRow_updates setRowUpdate_def)
  have u: "f (data s) = Some x \<longrightarrow>
      updates (setRow ?b (Updater f) s) =
      updates s @ concat (replicate (Suc (reruns s))
        (if autoSync ?b
         then [\<lparr>up_table = table ?b, up_values = x, up_column = primaryKey ?b,
                up_value = rowId ?b\<rparr>]
         else []))"
    by (simp add: setRow_updates setRowUpdate_def Let_def)
  from l u show ?thesis
    by (simp add: c b setRow_literal setRow_function unsubscribe_fields
        concat_replicate_single del: replicate.simps concat.simps)
qed

text \<open>
  The theorem at the documented scenario: after unsubscribe and a read that returned
  \<open>ann\<close>, the documented updater renames the row and one update is issued.
\<close>

theorem setRow_after_unsubscribe_witness:
  "data (setRow profiles rename
           (run profiles [ReadDone \<lparr>res_data = Some ann, res_error = None\<rparr>]
              (unsubscribe mounted))) = Some annX \<and>
   updates (setRow profiles rename
           (run profiles [ReadDone \<lparr>res_data = Some ann, res_error = None\<rparr>]
              (unsubscribe mounted))) =
     [\<lparr>up_table = ''profiles'', up_values = annX, up_column = ''id'', up_value = ''u1''\<rparr>]"
proof -
  let ?s = "run profiles [ReadDone \<lparr>res_data = Some ann, res_error = None\<rparr>]
              (unsubscribe mounted)"
  let ?f = "\<lambda>prev. case prev of
                     None \<Rightarrow> Some [(''name'', ''X'')]
                   | Some r \<Rightarrow> Some (map (\<lambda>(k, v). if k = ''name'' then (k, ''X'') else (k, v)) r)"
  obtain ret w1 where
    m: "useSupabaseRowState ''profiles'' (Some ''u1'') noOptions (world0 client0 :: row world)
          = (ret, w1)"
    by (cases "useSupabaseRowState ''profiles'' (Some ''u1'') noOptions
                 (world0 client0 :: row world)")
  have c: "rt_setRow ret = setRow profiles" "rt_unsubscribe ret = unsubscribe"
    using mount_fields(3,4) [OF m] by (simp_all add: profiles_def)
  have s: "?s = run (bindingsOf ''profiles'' ''u1'' noOptions)
                  [ReadDone \<lparr>res_data = Some ann, res_error = None\<rparr>] (rt_unsubscribe ret mounted)"
    by (simp add: c profiles_def)
  have d: "data ?s = Some ann" "updates ?s = []" "reruns ?s = 0"
    by (simp_all add: run_def fetchRow_def unsubscribe_def mounted_eq)
  have x: "?f (data ?s) = Some annX"
    by (simp only: d) (simp add: ann_def annX_def)
  from setRow_after_unsubscribe [OF m s, of None ?f annX] x d
  show ?thesis
    by (simp add: c rename_def noOptions_def orDefault_def)
qed

end
